theory Spec2Isabelle
  imports Complex_Main "HOL-Library.AList"
begin

section \<open>Values\<close>

text \<open>
  The model of \<^verbatim>\<open>src/sim.py\<close> (class \<^verbatim>\<open>MilitaryWorkforceModel\<close>).

  Numbers. A finite float64 is modelled by the real number it stands for; rounding is
  not modelled. The one operation of the source that makes a non-finite value out of
  finite ones is the division of two numpy scalars in \<^verbatim>\<open>calculate_metrics\<close>;
  its result type \<open>np_float\<close> has the values numpy gives for a zero divisor (with a
  RuntimeWarning, not an exception).

  Arrays. A one-dimensional array is the list of its entries, a two-dimensional array
  the list of its rows (all of one length), a three-dimensional array the list of its
  two-dimensional slices.
\<close>

datatype py_error = AttributeError | IndexError | TypeError | ValueError | RecursionError

datatype np_float = Finite real | PosInf | NegInf | NaN

definition np_divide :: "real \<Rightarrow> real \<Rightarrow> np_float" where
  "np_divide a b =
     (if b \<noteq> 0 then Finite (a / b)
      else if a = 0 then NaN
      else if 0 < a then PosInf
      else NegInf)"

text \<open>\<^verbatim>\<open>np.sum\<close> of a two-dimensional array.\<close>

definition np_sum :: "real list list \<Rightarrow> real" where
  "np_sum a = sum_list (concat a)"

text \<open>
  \<^verbatim>\<open>a[:, j]\<close>: the column \<open>j\<close>; numpy raises IndexError when the array has no such
  column. The list of rows does not record the width of an array without rows; such an
  array is taken to have the column.
\<close>

definition column :: "real list list \<Rightarrow> nat \<Rightarrow> py_error + real list" where
  "column a j =
     (if list_all (\<lambda>row. j < length row) a then Inr (map (\<lambda>row. row ! j) a)
      else Inl IndexError)"

section \<open>The metrics reducer\<close>

text \<open>
  \<^verbatim>\<open>calculate_metrics(self, time, population)\<close>. The store holds the array the caller
  passed in and the six arrays of the \<^verbatim>\<open>metrics\<close> dictionary; every statement of the
  loop body is an update of the store, and a raise leaves the store as it is at that
  statement.
\<close>

record metrics =
  total_force :: "real list"
  combat_ratio :: "np_float list"
  technical_ratio :: "np_float list"
  support_ratio :: "np_float list"
  junior_to_senior_ratio :: "real list"
  experienced_personnel :: "real list"

record metrics_store = metrics +
  population :: "real list list list"

definition metrics_init :: "nat \<Rightarrow> real list list list \<Rightarrow> metrics_store" where
  "metrics_init num_steps pop =
     \<lparr> total_force = replicate num_steps 0,
       combat_ratio = replicate num_steps (Finite 0),
       technical_ratio = replicate num_steps (Finite 0),
       support_ratio = replicate num_steps (Finite 0),
       junior_to_senior_ratio = replicate num_steps 0,
       experienced_personnel = replicate num_steps 0,
       population = pop \<rparr>"

definition metrics_body :: "nat \<Rightarrow> metrics_store \<Rightarrow> metrics_store \<times> py_error option" where
  "metrics_body t s =
     (if length (population s) \<le> t then (s, Some IndexError)
      else
        let pop = population s ! t;
            s1 = s\<lparr>total_force := (total_force s)[t := np_sum pop]\<rparr>
        in case column pop 0 of Inl e \<Rightarrow> (s1, Some e) | Inr c0 \<Rightarrow>
        let s2 = s1\<lparr>combat_ratio :=
                     (combat_ratio s1)[t := np_divide (sum_list c0) (total_force s1 ! t)]\<rparr>
        in case column pop 1 of Inl e \<Rightarrow> (s2, Some e) | Inr c1 \<Rightarrow>
        let s3 = s2\<lparr>technical_ratio :=
                     (technical_ratio s2)[t := np_divide (sum_list c1) (total_force s2 ! t)]\<rparr>
        in case column pop 2 of Inl e \<Rightarrow> (s3, Some e) | Inr c2 \<Rightarrow>
        let s4 = s3\<lparr>support_ratio :=
                     (support_ratio s3)[t := np_divide (sum_list c2) (total_force s3 ! t)]\<rparr>;
            junior = np_sum (take 3 pop);
            senior = np_sum (drop 3 pop);
            s5 = s4\<lparr>junior_to_senior_ratio :=
                     (junior_to_senior_ratio s4)[t := junior / max senior 1]\<rparr>;
            s6 = s5\<lparr>experienced_personnel := (experienced_personnel s5)[t := senior]\<rparr>
        in (s6, None))"

fun metrics_loop :: "nat list \<Rightarrow> metrics_store \<Rightarrow> metrics_store \<times> py_error option" where
  "metrics_loop [] s = (s, None)"
| "metrics_loop (t # ts) s =
     (case metrics_body t s of
        (s', None) \<Rightarrow> metrics_loop ts s'
      | (s', Some e) \<Rightarrow> (s', Some e))"

definition calculate_metrics_store ::
  "real list \<Rightarrow> real list list list \<Rightarrow> metrics_store \<times> py_error option" where
  "calculate_metrics_store time pop =
     (let num_steps = length time
      in metrics_loop [0..<num_steps] (metrics_init num_steps pop))"

definition calculate_metrics :: "real list \<Rightarrow> real list list list \<Rightarrow> py_error + metrics" where
  "calculate_metrics time pop =
     (case calculate_metrics_store time pop of
        (s, None) \<Rightarrow> Inr (metrics.truncate s)
      | (s, Some e) \<Rightarrow> Inl e)"

section \<open>The model object\<close>

text \<open>
  An instance is its attribute dictionary, in insertion order. The values are the kinds
  \<^verbatim>\<open>__init__\<close> stores (Python ints and numpy arrays of one and two dimensions) and
  the bound methods of the instance, which \<^verbatim>\<open>getattr\<close> returns for a method name.
\<close>

datatype pyval =
    PyInt int
  | NdArray1 "real list"
  | NdArray2 "real list list"
  | BoundMethod string

type_synonym model = "(string \<times> pyval) list"

definition initial_population_default :: "real list list" where
  "initial_population_default =
     [[1000, 1200, 800],
      [900, 1000, 700],
      [700, 800, 600],
      [500, 600, 400],
      [300, 400, 200],
      [100, 150, 80]]"

definition init_model :: model where
  "init_model =
     [(''num_ranks'', PyInt 6),
      (''num_specialties'', PyInt 3),
      (''initial_population'', NdArray2 initial_population_default),
      (''recruitment_rates'', NdArray1 [100, 120, 80]),
      (''promotion_rates'', NdArray1 [3/10, 1/4, 1/5, 15/100, 1/10, 0]),
      (''attrition_rates'', NdArray1 [15/100, 12/100, 1/10, 8/100, 5/100, 15/100]),
      (''training_times'', NdArray1 [1/2, 3/4, 33/100]),
      (''max_service_years'', PyInt 20),
      (''cross_training_matrix'',
         NdArray2 [[9/10, 5/100, 5/100],
                   [5/100, 9/10, 5/100],
                   [5/100, 5/100, 9/10]])]"


text \<open>
  \<^verbatim>\<open>getattr(self, key)\<close>: the instance dictionary first, then the functions of the
  class body, which come back as bound methods. Names that begin with two underscores
  reach the attributes every object inherits from \<^verbatim>\<open>object\<close>; they are outside the
  model (see \<open>valid_kwargs\<close>). \<^verbatim>\<open>hasattr\<close> is Python's: \<^verbatim>\<open>getattr\<close> does not
  raise AttributeError. \<^verbatim>\<open>setattr\<close> writes the instance dictionary: an existing
  key keeps its place, a new key goes to the end.
\<close>

definition class_methods :: "string list" where
  "class_methods =
     [''__init__'', ''simulate'', ''calculate_metrics'', ''plot_results'', ''run_scenario'']"

definition getattr :: "model \<Rightarrow> string \<Rightarrow> py_error + pyval" where
  "getattr self key =
     (case map_of self key of
        Some v \<Rightarrow> Inr v
      | None \<Rightarrow> if key \<in> set class_methods then Inr (BoundMethod key) else Inl AttributeError)"

definition hasattr :: "model \<Rightarrow> string \<Rightarrow> bool" where
  "hasattr self key = (case getattr self key of Inr v \<Rightarrow> True | Inl e \<Rightarrow> False)"

definition setattr :: "model \<Rightarrow> string \<Rightarrow> pyval \<Rightarrow> model" where
  "setattr self key v = AList.update key v self"

text \<open>An attribute used where Python needs an integer (\<^verbatim>\<open>range\<close>, a dimension).\<close>

definition attr_int :: "model \<Rightarrow> string \<Rightarrow> py_error + int" where
  "attr_int self key =
     (case getattr self key of
        Inl e \<Rightarrow> Inl e
      | Inr (PyInt n) \<Rightarrow> Inr n
      | Inr v \<Rightarrow> Inl TypeError)"

section \<open>Array operations of numpy\<close>

text \<open>
  The shape numpy's \<^verbatim>\<open>reshape\<close> gives an array of \<open>n\<close> entries: one dimension may
  be \<open>-1\<close> and is then inferred; any other negative dimension, two unknown dimensions
  and a size that does not fit raise ValueError.
\<close>

definition resolve_shape :: "int list \<Rightarrow> nat \<Rightarrow> py_error + nat list" where
  "resolve_shape dims n =
     (let known = filter (\<lambda>d. d \<noteq> - 1) dims;
          unknown = length (filter (\<lambda>d. d = - 1) dims)
      in if list_ex (\<lambda>d. d < 0) known then Inl ValueError
         else if unknown = 0 then
           (if prod_list known = int n then Inr (map nat dims) else Inl ValueError)
         else if unknown = 1 then
           (if prod_list known = 0 \<or> int n mod prod_list known \<noteq> 0 then Inl ValueError
            else Inr (map (\<lambda>d. if d = - 1 then n div nat (prod_list known) else nat d) dims))
         else Inl ValueError)"

definition rows_of :: "nat \<Rightarrow> nat \<Rightarrow> 'a list \<Rightarrow> 'a list list" where
  "rows_of n c xs = map (\<lambda>i. take c (drop (i * c) xs)) [0..<n]"

definition reshape2 :: "real list \<Rightarrow> int \<Rightarrow> int \<Rightarrow> py_error + real list list" where
  "reshape2 xs r c =
     (case resolve_shape [r, c] (length xs) of
        Inl e \<Rightarrow> Inl e
      | Inr sh \<Rightarrow> Inr (rows_of (sh ! 0) (sh ! 1) xs))"

definition reshape3 ::
  "real list \<Rightarrow> int \<Rightarrow> int \<Rightarrow> int \<Rightarrow> py_error + real list list list" where
  "reshape3 xs n r c =
     (case resolve_shape [n, r, c] (length xs) of
        Inl e \<Rightarrow> Inl e
      | Inr sh \<Rightarrow> Inr (map (rows_of (sh ! 1) (sh ! 2)) (rows_of (sh ! 0) (sh ! 1 * sh ! 2) xs)))"

definition zeros_like :: "real list list \<Rightarrow> real list list" where
  "zeros_like a = map (map (\<lambda>x. 0)) a"

text \<open>\<^verbatim>\<open>a[i, j]\<close> and \<^verbatim>\<open>a[i, j] += v\<close> on a two-dimensional array.\<close>

definition item2 :: "real list list \<Rightarrow> nat \<Rightarrow> nat \<Rightarrow> py_error + real" where
  "item2 a i j =
     (if i < length a \<and> j < length (a ! i) then Inr (a ! i ! j) else Inl IndexError)"

definition iadd :: "real list list \<Rightarrow> nat \<Rightarrow> nat \<Rightarrow> real \<Rightarrow> py_error + real list list" where
  "iadd a i j v =
     (if i < length a \<and> j < length (a ! i) then Inr (a[i := (a ! i)[j := a ! i ! j + v]])
      else Inl IndexError)"

text \<open>
  \<^verbatim>\<open>v[i]\<close> read as a number, for a rate vector. A Python int and a bound method are not
  subscriptable. Of a two-dimensional array \<^verbatim>\<open>v[i]\<close> is a row: the product with it is
  an array, which the assignment into one cell takes when it has a single entry and
  refuses with ValueError otherwise.
\<close>

definition index1 :: "pyval \<Rightarrow> nat \<Rightarrow> py_error + real" where
  "index1 v i =
     (case v of
        NdArray1 xs \<Rightarrow> if i < length xs then Inr (xs ! i) else Inl IndexError
      | NdArray2 a \<Rightarrow>
          if length a \<le> i then Inl IndexError
          else if length (a ! i) = 1 then Inr (a ! i ! 0)
          else Inl ValueError
      | PyInt k \<Rightarrow> Inl TypeError
      | BoundMethod m \<Rightarrow> Inl TypeError)"

text \<open>\<^verbatim>\<open>v[i, j]\<close>, for the cross-training matrix.\<close>

definition index2 :: "pyval \<Rightarrow> nat \<Rightarrow> nat \<Rightarrow> py_error + real" where
  "index2 v i j =
     (case v of
        NdArray2 a \<Rightarrow> item2 a i j
      | NdArray1 xs \<Rightarrow> Inl IndexError
      | PyInt k \<Rightarrow> Inl TypeError
      | BoundMethod m \<Rightarrow> Inl TypeError)"

text \<open>
  \<^verbatim>\<open>dpop[0, :] += rec\<close>: the first row must exist; a vector of the row's length is
  added entry by entry, a scalar and a vector of one entry are broadcast, anything else
  does not fit the row.
\<close>

definition add_recruitment :: "real list list \<Rightarrow> pyval \<Rightarrow> py_error + real list list" where
  "add_recruitment dpop rec =
     (case dpop of
        [] \<Rightarrow> Inl IndexError
      | row # rest \<Rightarrow>
          (case rec of
             NdArray1 rs \<Rightarrow>
               if length rs = length row then Inr (map2 (+) row rs # rest)
               else if length rs = 1 then Inr (map (\<lambda>x. x + rs ! 0) row # rest)
               else Inl ValueError
           | PyInt k \<Rightarrow> Inr (map (\<lambda>x. x + of_int k) row # rest)
           | NdArray2 a \<Rightarrow> Inl ValueError
           | BoundMethod m \<Rightarrow> Inl TypeError))"

section \<open>The derivative function\<close>

text \<open>
  \<^verbatim>\<open>workforce_ode(t, pop_flat)\<close>, the closure over \<^verbatim>\<open>self\<close> defined in
  \<^verbatim>\<open>simulate\<close>. The three nested loops run over the lists \<^verbatim>\<open>range\<close> gives.
\<close>

fun cross_training_loop ::
  "model \<Rightarrow> real \<Rightarrow> nat \<Rightarrow> nat \<Rightarrow> nat list \<Rightarrow> real list list \<Rightarrow> py_error + real list list"
where
  "cross_training_loop self current_pop rank specialty [] dpop = Inr dpop"
| "cross_training_loop self current_pop rank specialty (target_specialty # rest) dpop =
     (if target_specialty \<noteq> specialty then
        (case getattr self ''cross_training_matrix'' of Inl e \<Rightarrow> Inl e | Inr m \<Rightarrow>
         case index2 m specialty target_specialty of Inl e \<Rightarrow> Inl e | Inr transfer_rate \<Rightarrow>
         let transfer = current_pop * transfer_rate * (5 / 100)
         in case iadd dpop rank specialty (- transfer) of Inl e \<Rightarrow> Inl e | Inr dpop1 \<Rightarrow>
            case iadd dpop1 rank target_specialty transfer of Inl e \<Rightarrow> Inl e | Inr dpop2 \<Rightarrow>
            cross_training_loop self current_pop rank specialty rest dpop2)
      else cross_training_loop self current_pop rank specialty rest dpop)"

definition promotion ::
  "model \<Rightarrow> real \<Rightarrow> nat \<Rightarrow> nat \<Rightarrow> real list list \<Rightarrow> py_error + real list list" where
  "promotion self current_pop rank specialty dpop =
     (case attr_int self ''num_ranks'' of Inl e \<Rightarrow> Inl e | Inr num_ranks \<Rightarrow>
      if int rank < num_ranks - 1 then
        (case getattr self ''promotion_rates'' of Inl e \<Rightarrow> Inl e | Inr rates \<Rightarrow>
         case index1 rates rank of Inl e \<Rightarrow> Inl e | Inr rate \<Rightarrow>
         let promotion_outflow = current_pop * rate
         in case iadd dpop rank specialty (- promotion_outflow) of
              Inl e \<Rightarrow> Inl e
            | Inr dpop1 \<Rightarrow> iadd dpop1 (rank + 1) specialty promotion_outflow)
      else Inr dpop)"

definition cell_flows ::
  "model \<Rightarrow> real list list \<Rightarrow> nat \<Rightarrow> nat \<Rightarrow> real list list \<Rightarrow> py_error + real list list" where
  "cell_flows self pop rank specialty dpop =
     (case item2 pop rank specialty of Inl e \<Rightarrow> Inl e | Inr current_pop \<Rightarrow>
      case getattr self ''attrition_rates'' of Inl e \<Rightarrow> Inl e | Inr rates \<Rightarrow>
      case index1 rates rank of Inl e \<Rightarrow> Inl e | Inr rate \<Rightarrow>
      let attrition = current_pop * rate
      in case iadd dpop rank specialty (- attrition) of Inl e \<Rightarrow> Inl e | Inr dpop1 \<Rightarrow>
         case promotion self current_pop rank specialty dpop1 of Inl e \<Rightarrow> Inl e | Inr dpop2 \<Rightarrow>
         case attr_int self ''num_specialties'' of Inl e \<Rightarrow> Inl e | Inr num_specialties \<Rightarrow>
         cross_training_loop self current_pop rank specialty [0..<nat num_specialties] dpop2)"

fun specialty_loop ::
  "model \<Rightarrow> real list list \<Rightarrow> nat \<Rightarrow> nat list \<Rightarrow> real list list \<Rightarrow> py_error + real list list"
where
  "specialty_loop self pop rank [] dpop = Inr dpop"
| "specialty_loop self pop rank (specialty # rest) dpop =
     (case cell_flows self pop rank specialty dpop of
        Inl e \<Rightarrow> Inl e
      | Inr dpop1 \<Rightarrow> specialty_loop self pop rank rest dpop1)"

fun rank_loop ::
  "model \<Rightarrow> real list list \<Rightarrow> nat list \<Rightarrow> real list list \<Rightarrow> py_error + real list list"
where
  "rank_loop self pop [] dpop = Inr dpop"
| "rank_loop self pop (rank # rest) dpop =
     (case attr_int self ''num_specialties'' of Inl e \<Rightarrow> Inl e | Inr num_specialties \<Rightarrow>
      case specialty_loop self pop rank [0..<nat num_specialties] dpop of
        Inl e \<Rightarrow> Inl e
      | Inr dpop1 \<Rightarrow> rank_loop self pop rest dpop1)"

definition workforce_ode :: "model \<Rightarrow> real \<Rightarrow> real list \<Rightarrow> py_error + real list" where
  "workforce_ode self t pop_flat =
     (case attr_int self ''num_ranks'' of Inl e \<Rightarrow> Inl e | Inr num_ranks \<Rightarrow>
      case attr_int self ''num_specialties'' of Inl e \<Rightarrow> Inl e | Inr num_specialties \<Rightarrow>
      case reshape2 pop_flat num_ranks num_specialties of Inl e \<Rightarrow> Inl e | Inr pop \<Rightarrow>
      let dpop = zeros_like pop
      in if dpop = [] then Inl IndexError
         else
           case getattr self ''recruitment_rates'' of Inl e \<Rightarrow> Inl e | Inr rec \<Rightarrow>
           case add_recruitment dpop rec of Inl e \<Rightarrow> Inl e | Inr dpop1 \<Rightarrow>
           case rank_loop self pop [0..<nat num_ranks] dpop1 of
             Inl e \<Rightarrow> Inl e
           | Inr dpop2 \<Rightarrow> Inr (concat dpop2))"

section \<open>The simulation entry point\<close>

text \<open>
  \<^verbatim>\<open>np.arange(start, stop, step)\<close> on floats, read over the reals:
  \<open>\<lceil>(stop - start) / step\<rceil>\<close> points \<open>start + i * step\<close>, none when that number is not
  positive; a zero step has no length and raises ValueError.
\<close>

definition np_arange :: "real \<Rightarrow> real \<Rightarrow> real \<Rightarrow> py_error + real list" where
  "np_arange start stop step =
     (if step = 0 then Inl ValueError
      else Inr (map (\<lambda>i. start + real i * step) [0..<nat \<lceil>(stop - start) / step\<rceil>]))"

text \<open>\<^verbatim>\<open>v.flatten()\<close>: arrays have the method, ints and bound methods do not.\<close>

definition flatten :: "pyval \<Rightarrow> py_error + real list" where
  "flatten v =
     (case v of
        NdArray2 a \<Rightarrow> Inr (concat a)
      | NdArray1 xs \<Rightarrow> Inr xs
      | PyInt k \<Rightarrow> Inl AttributeError
      | BoundMethod m \<Rightarrow> Inl AttributeError)"

text \<open>
  \<^verbatim>\<open>solve_ivp\<close> is scipy's and not part of the repository: it is a parameter of the
  model. It receives the derivative function, \<^verbatim>\<open>t_span\<close>, the initial state and
  \<^verbatim>\<open>t_eval\<close>, and either raises (an exception of its own or one the derivative
  function raised) or returns its result object. Of that object the model keeps the
  field \<^verbatim>\<open>y\<close>, transposed as the source reads it (one row per evaluation time the
  integration reached), and the fields \<^verbatim>\<open>status\<close> and \<^verbatim>\<open>success\<close>, by which scipy
  reports that a step failed.
\<close>

record ode_result =
  sol_t :: "real list"
  sol_y_T :: "real list list"
  status :: int
  success :: bool

type_synonym rhs = "real \<Rightarrow> real list \<Rightarrow> py_error + real list"

type_synonym solver = "rhs \<Rightarrow> real \<times> real \<Rightarrow> real list \<Rightarrow> real list \<Rightarrow> py_error + ode_result"

definition simulate ::
  "solver \<Rightarrow> model \<Rightarrow> real \<Rightarrow> real \<Rightarrow>
   py_error + (real list \<times> real list list list \<times> metrics)" where
  "simulate solve_ivp self years dt =
     (case np_arange 0 years dt of Inl e \<Rightarrow> Inl e | Inr time_points \<Rightarrow>
      let num_steps = length time_points
      in case getattr self ''initial_population'' of Inl e \<Rightarrow> Inl e | Inr ip \<Rightarrow>
         case flatten ip of Inl e \<Rightarrow> Inl e | Inr initial_pop_flat \<Rightarrow>
         case solve_ivp (workforce_ode self) (0, years) initial_pop_flat time_points of
           Inl e \<Rightarrow> Inl e
         | Inr solution \<Rightarrow>
         case attr_int self ''num_ranks'' of Inl e \<Rightarrow> Inl e | Inr num_ranks \<Rightarrow>
         case attr_int self ''num_specialties'' of Inl e \<Rightarrow> Inl e | Inr num_specialties \<Rightarrow>
         case reshape3 (concat (sol_y_T solution)) (int num_steps) num_ranks num_specialties of
           Inl e \<Rightarrow> Inl e
         | Inr population_over_time \<Rightarrow>
         case calculate_metrics time_points population_over_time of
           Inl e \<Rightarrow> Inl e
         | Inr m \<Rightarrow> Inr (time_points, population_over_time, m))"

section \<open>The scenario runner\<close>

text \<open>
  \<^verbatim>\<open>run_scenario(self, scenario_name, years, **kwargs)\<close>. The keyword dictionary is
  the list of its items in order. The state of the first loop is the object, the
  dictionary \<^verbatim>\<open>original_params\<close> and the lines printed so far. Under
  \<^verbatim>\<open>hasattr\<close> the call of \<^verbatim>\<open>getattr\<close> cannot raise (lemma \<open>hasattr_iff\<close>), so
  the branch for its exception is never taken.
\<close>

definition warning :: "string \<Rightarrow> string" where
  "warning key = ''Warning: Parameter '' @ [CHR 0x27] @ key @ [CHR 0x27] @ '' not recognized.''"

fun override_loop ::
  "(string \<times> pyval) list \<Rightarrow> model \<times> (string \<times> pyval) list \<times> string list \<Rightarrow>
   model \<times> (string \<times> pyval) list \<times> string list" where
  "override_loop [] st = st"
| "override_loop ((key, v) # rest) (self, original_params, printed) =
     (if hasattr self key then
        (case getattr self key of
           Inr old \<Rightarrow>
             override_loop rest (setattr self key v, AList.update key old original_params, printed)
         | Inl e \<Rightarrow> (self, original_params, printed))
      else override_loop rest (self, original_params, printed @ [warning key]))"

fun restore_loop :: "(string \<times> pyval) list \<Rightarrow> model \<Rightarrow> model" where
  "restore_loop [] self = self"
| "restore_loop ((key, v) # rest) self = restore_loop rest (setattr self key v)"

text \<open>
  \<^verbatim>\<open>self.simulate(years)\<close>: the attribute lookup, then the call, with the default step
  \<open>0.1\<close>. An int or an array is not callable; the other methods of the class do not
  take this argument list, and \<^verbatim>\<open>run_scenario\<close> bound to the name would call itself
  without end.
\<close>

definition call_simulate ::
  "solver \<Rightarrow> model \<Rightarrow> real \<Rightarrow> py_error + (real list \<times> real list list list \<times> metrics)" where
  "call_simulate solve_ivp self years =
     (case getattr self ''simulate'' of
        Inl e \<Rightarrow> Inl e
      | Inr (BoundMethod name) \<Rightarrow>
          if name = ''simulate'' then simulate solve_ivp self years (1 / 10)
          else if name = ''run_scenario'' then Inl RecursionError
          else Inl TypeError
      | Inr v \<Rightarrow> Inl TypeError)"

text \<open>
  The outcome of a call: the object as the call leaves it, the lines printed, and the
  exception raised or the value returned.
\<close>

definition run_scenario ::
  "solver \<Rightarrow> model \<Rightarrow> string \<Rightarrow> real \<Rightarrow> (string \<times> pyval) list \<Rightarrow>
   model \<times> string list \<times> (py_error + (real list \<times> real list list list \<times> metrics))" where
  "run_scenario solve_ivp self scenario_name years kwargs =
     (case override_loop kwargs (self, [], []) of
        (self1, original_params, printed) \<Rightarrow>
          (case call_simulate solve_ivp self1 years of
             Inl e \<Rightarrow> (self1, printed, Inl e)
           | Inr results \<Rightarrow> (restore_loop original_params self1, printed, Inr results)))"

text \<open>
  The keyword dictionaries the model covers: a dictionary has no key twice; the names of
  the parameters of \<^verbatim>\<open>run_scenario\<close> are bound to them and never reach
  \<^verbatim>\<open>kwargs\<close>; and no key begins with two underscores (such names reach what the
  instance inherits from \<^verbatim>\<open>object\<close>, which the attribute model leaves out).
\<close>

definition valid_kwargs :: "(string \<times> pyval) list \<Rightarrow> bool" where
  "valid_kwargs kwargs =
     (distinct (map fst kwargs) \<and>
      list_all (\<lambda>key. take 2 key \<noteq> ''__'' \<and> key \<notin> set [''self'', ''scenario_name'', ''years''])
        (map fst kwargs))"

section \<open>A stand-in integrator\<close>

text \<open>
  For closed evaluations only: explicit Euler steps between the requested times, with
  the derivative evaluated at the initial state first, as scipy's integrators do when
  they are set up. The flag says what the result object reports; \<open>False\<close> is a run
  whose states are all there and whose last step, after the last requested time, failed.
\<close>

fun euler_steps :: "rhs \<Rightarrow> real \<Rightarrow> real list \<Rightarrow> real list \<Rightarrow> py_error + real list list" where
  "euler_steps f t y [] = Inr []"
| "euler_steps f t y (t1 # ts) =
     (case f t y of Inl e \<Rightarrow> Inl e | Inr dy \<Rightarrow>
      let y1 = map2 (\<lambda>a b. a + (t1 - t) * b) y dy
      in case euler_steps f t1 y1 ts of Inl e \<Rightarrow> Inl e | Inr ys \<Rightarrow> Inr (y1 # ys))"

definition euler_solver :: "bool \<Rightarrow> solver" where
  "euler_solver ok f t_span y0 t_eval =
     (case f (fst t_span) y0 of Inl e \<Rightarrow> Inl e | Inr dy \<Rightarrow>
      case euler_steps f (fst t_span) y0 t_eval of Inl e \<Rightarrow> Inl e | Inr ys \<Rightarrow>
      Inr \<lparr> sol_t = t_eval, sol_y_T = ys, status = (if ok then 0 else - 1), success = ok \<rparr>)"

section \<open>Shapes, grids and configurations used below\<close>


text \<open>The grid of six ranks and three specialties with nobody in it.\<close>

definition zero_population :: "real list list" where
  "zero_population = replicate 6 (replicate 3 0)"


text \<open>The default configuration with another diagonal in the cross-training matrix.\<close>

definition other_diagonal_model :: model where
  "other_diagonal_model =
     setattr init_model ''cross_training_matrix''
       (NdArray2 [[0, 5/100, 5/100], [5/100, 1, 5/100], [5/100, 5/100, 7]])"

section \<open>Properties of the metrics reducer\<close>

lemma metrics_body_population: "population (fst (metrics_body t s)) = population s"
  by (simp add: metrics_body_def Let_def split: sum.splits)

lemma metrics_loop_population: "population (fst (metrics_loop ts s)) = population s"
proof (induction ts arbitrary: s)
  case Nil
  show ?case by simp
next
  case (Cons t ts)
  obtain s' r where b: "metrics_body t s = (s', r)"
    by (cases "metrics_body t s")
  have p: "population s' = population s"
    using metrics_body_population [of t s] b by simp
  show ?case
  proof (cases r)
    case None
    then show ?thesis using b p Cons.IH [of s'] by simp
  next
    case (Some e)
    then show ?thesis using b p by simp
  qed
qed

text \<open>
  C9. The metrics reducer never writes to the population array: on every exit of
  \<^verbatim>\<open>calculate_metrics\<close>, return or raise, and for every time vector and every
  series of population grids, the array passed in holds what it held at the call.
\<close>

theorem calculate_metrics_leaves_population:
  "population (fst (calculate_metrics_store time pop)) = pop"
  by (simp add: calculate_metrics_store_def Let_def metrics_loop_population metrics_init_def)

text \<open>
  C1. On a snapshot of six ranks and three specialties whose cells are all zero the
  total is zero, and the reducer divides zero by it: each of the three specialty ratios
  is NaN, not 0. The junior/senior ratio, whose divisor is floored at 1, is 0.
\<close>

theorem zero_total_ratios_are_nan:
  "calculate_metrics [0] [zero_population] =
   Inr \<lparr> total_force = [0], combat_ratio = [NaN], technical_ratio = [NaN],
         support_ratio = [NaN], junior_to_senior_ratio = [0],
         experienced_personnel = [0] \<rparr>"
  by code_simp

text \<open>
  C5. The cells of the default initial population grid sum to 10430, and that is the
  total force the reducer reports for the grid.
\<close>

theorem default_total_force:
  "getattr init_model ''initial_population'' = Inr (NdArray2 initial_population_default) \<and>
   np_sum initial_population_default = 10430 \<and>
   map_sum id total_force (calculate_metrics [0] [initial_population_default]) = Inr [10430]"
  by code_simp

text \<open>The total force of the default grid is not 10530.\<close>

theorem default_total_force_not_10530:
  "map_sum id total_force (calculate_metrics [0] [initial_population_default]) \<noteq> Inr [10530]"
  by code_simp

section \<open>Properties of the derivative function\<close>

subsection \<open>In-place updates\<close>









subsection \<open>Every transfer is taken from one cell and given to another\<close>









subsection \<open>The default configuration\<close>

lemma ode_default:
  "workforce_ode init_model t
     [1000, 1200, 800, 900, 1000, 700, 700, 800, 600, 500, 600, 400, 300, 400, 200, 100, 150, 80] =
   Inr [- 350, - (843 / 2), - (557 / 2), - (133 / 4), - 11, - (71 / 4), 15,
      37 / 4, - (17 / 4), 25, 85 / 4, 115 / 4, 30, 117 / 4, 123 / 4,
      603 / 40, 86 / 5, 329 / 40]"
  by code_simp

text \<open>
  C4. Under the default configuration the derivative function, on the default initial
  grid, gives the cell of rank 0 and specialty 0, which holds 1000, the rate of change
  -350: recruitment 100, attrition 150, promotion 300, cross-training to the two other
  specialties 5, and cross-training received from them, 3 and 2.
\<close>

theorem default_derivative_first_cell:
  "concat initial_population_default ! 0 = 1000 \<and>
   map_sum id (\<lambda>d. d ! 0) (workforce_ode init_model t (concat initial_population_default)) =
     Inr (- 350)"
  by (simp add: initial_population_default_def ode_default)

text \<open>The rate of change of that cell is not -355.\<close>

theorem default_derivative_first_cell_not_355:
  "map_sum id (\<lambda>d. d ! 0) (workforce_ode init_model 0 (concat initial_population_default)) \<noteq>
     Inr (- 355)"
  by (simp add: initial_population_default_def ode_default)

subsection \<open>The diagonal of the cross-training matrix\<close>

lemma cross_training_loop_diagonal:
  assumes "getattr self1 ''cross_training_matrix'' = Inr (NdArray2 m1)"
    and "getattr self2 ''cross_training_matrix'' = Inr (NdArray2 m2)"
    and "\<forall>i j. i \<noteq> j \<longrightarrow> item2 m1 i j = item2 m2 i j"
  shows "cross_training_loop self1 cp rank specialty targets dpop =
         cross_training_loop self2 cp rank specialty targets dpop"
proof (induction targets arbitrary: dpop)
  case Nil
  show ?case by simp
next
  case (Cons t ts)
  show ?case
  proof (cases "t = specialty")
    case True
    then show ?thesis using Cons.IH by simp
  next
    case False
    then have "item2 m1 specialty t = item2 m2 specialty t"
      using assms(3) by auto
    then show ?thesis
      using False assms(1,2) Cons.IH by (simp add: index2_def cong: sum.case_cong)
  qed
qed

lemma specialty_loop_diagonal:
  assumes "\<forall>key. key \<noteq> ''cross_training_matrix'' \<longrightarrow> getattr self1 key = getattr self2 key"
    and "getattr self1 ''cross_training_matrix'' = Inr (NdArray2 m1)"
    and "getattr self2 ''cross_training_matrix'' = Inr (NdArray2 m2)"
    and "\<forall>i j. i \<noteq> j \<longrightarrow> item2 m1 i j = item2 m2 i j"
  shows "specialty_loop self1 pop rank specialties dpop =
         specialty_loop self2 pop rank specialties dpop"
proof (induction specialties arbitrary: dpop)
  case Nil
  show ?case by simp
next
  case (Cons s ss)
  have g: "getattr self1 ''num_ranks'' = getattr self2 ''num_ranks''"
    "getattr self1 ''num_specialties'' = getattr self2 ''num_specialties''"
    "getattr self1 ''promotion_rates'' = getattr self2 ''promotion_rates''"
    "getattr self1 ''attrition_rates'' = getattr self2 ''attrition_rates''"
    using assms(1) by simp_all
  have p: "promotion self1 cp rank s d = promotion self2 cp rank s d" for cp d
    by (simp add: promotion_def attr_int_def g cong: sum.case_cong if_cong)
  have "cell_flows self1 pop rank s dpop = cell_flows self2 pop rank s dpop"
    using cross_training_loop_diagonal [OF assms(2,3,4)]
    by (simp add: cell_flows_def attr_int_def g p cong: sum.case_cong)
  then show ?case using Cons.IH by (simp cong: sum.case_cong)
qed

lemma rank_loop_diagonal:
  assumes "\<forall>key. key \<noteq> ''cross_training_matrix'' \<longrightarrow> getattr self1 key = getattr self2 key"
    and "getattr self1 ''cross_training_matrix'' = Inr (NdArray2 m1)"
    and "getattr self2 ''cross_training_matrix'' = Inr (NdArray2 m2)"
    and "\<forall>i j. i \<noteq> j \<longrightarrow> item2 m1 i j = item2 m2 i j"
  shows "rank_loop self1 pop ranks dpop = rank_loop self2 pop ranks dpop"
proof (induction ranks arbitrary: dpop)
  case Nil
  show ?case by simp
next
  case (Cons k ks)
  have g: "getattr self1 ''num_specialties'' = getattr self2 ''num_specialties''"
    using assms(1) by simp
  show ?case
    using specialty_loop_diagonal [OF assms] Cons.IH
    by (simp add: attr_int_def g cong: sum.case_cong)
qed

text \<open>
  C10. The derivative function does not read the diagonal of the cross-training matrix:
  two configurations that agree on every other attribute and whose matrices read alike
  at every off-diagonal position give the same result, value or exception, on every
  population array.
\<close>

theorem workforce_ode_ignores_diagonal:
  assumes "\<forall>key. key \<noteq> ''cross_training_matrix'' \<longrightarrow> getattr self1 key = getattr self2 key"
    and "getattr self1 ''cross_training_matrix'' = Inr (NdArray2 m1)"
    and "getattr self2 ''cross_training_matrix'' = Inr (NdArray2 m2)"
    and "\<forall>i j. i \<noteq> j \<longrightarrow> item2 m1 i j = item2 m2 i j"
  shows "workforce_ode self1 t pop_flat = workforce_ode self2 t pop_flat"
proof -
  have g: "getattr self1 ''num_ranks'' = getattr self2 ''num_ranks''"
    "getattr self1 ''num_specialties'' = getattr self2 ''num_specialties''"
    "getattr self1 ''recruitment_rates'' = getattr self2 ''recruitment_rates''"
    using assms(1) by simp_all
  show ?thesis
    using rank_loop_diagonal [OF assms]
    by (simp add: workforce_ode_def attr_int_def g cong: sum.case_cong if_cong)
qed

text \<open>The default configuration and the one with the diagonal 0, 1, 7.\<close>

theorem workforce_ode_ignores_diagonal_witness:
  "workforce_ode init_model 0 (concat initial_population_default) =
   workforce_ode other_diagonal_model 0 (concat initial_population_default) \<and>
   getattr init_model ''cross_training_matrix'' \<noteq> getattr other_diagonal_model ''cross_training_matrix''"
proof -
  let ?m1 = "[[9/10, 5/100, 5/100], [5/100, 9/10, 5/100], [5/100, 5/100, 9/10 :: real]]"
  let ?m2 = "[[0, 5/100, 5/100], [5/100, 1, 5/100], [5/100, 5/100, 7 :: real]]"
  have 1: "\<forall>key. key \<noteq> ''cross_training_matrix'' \<longrightarrow>
             getattr init_model key = getattr other_diagonal_model key"
    by (simp add: other_diagonal_model_def getattr_def setattr_def update_conv')
  have 2: "getattr init_model ''cross_training_matrix'' = Inr (NdArray2 ?m1)"
    by (simp add: init_model_def getattr_def)
  have 3: "getattr other_diagonal_model ''cross_training_matrix'' = Inr (NdArray2 ?m2)"
    by (simp add: other_diagonal_model_def getattr_def setattr_def update_conv')
  have 4: "\<forall>i j. i \<noteq> j \<longrightarrow> item2 ?m1 i j = item2 ?m2 i j"
    by (auto simp: item2_def nth_Cons' less_Suc_eq numeral_3_eq_3)
  show ?thesis
    using workforce_ode_ignores_diagonal [OF 1 2 3 4, of 0 "concat initial_population_default"] 2 3
    by simp
qed

section \<open>Properties of the simulation entry point\<close>

subsection \<open>A run of two time points with the stand-in integrator\<close>

lemma euler_default:
  "euler_solver ok (workforce_ode init_model) (0, 1 / 5)
     [1000, 1200, 800, 900, 1000, 700, 700, 800, 600, 500, 600, 400, 300, 400, 200, 100, 150, 80]
     [0, 1 / 10] =
   Inr \<lparr>sol_t = [0, 1 / 10],
        sol_y_T =
          [[1000, 1200, 800, 900, 1000, 700, 700, 800, 600, 500, 600, 400,
            300, 400, 200, 100, 150, 80],
           [965, 23157 / 20, 15443 / 20, 35867 / 40, 9989 / 10, 27929 / 40,
            1403 / 2, 32037 / 40, 23983 / 40, 1005 / 2, 4817 / 8, 3223 / 8,
            303, 16117 / 40, 8123 / 40, 40603 / 400, 3793 / 25,
            32329 / 400]],
        status = (if ok then 0 else - 1), success = ok\<rparr>"
  by (simp add: euler_solver_def ode_default)

lemma arange_default: "np_arange 0 (1 / 5) (1 / 10) = Inr [0, 1 / 10]"
  by code_simp

lemma reshape_default:
  "reshape3 [1000, 1200, 800, 900, 1000, 700, 700, 800, 600, 500, 600, 400,
            300, 400, 200, 100, 150, 80,
            965, 23157 / 20, 15443 / 20, 35867 / 40, 9989 / 10, 27929 / 40,
            1403 / 2, 32037 / 40, 23983 / 40, 1005 / 2, 4817 / 8, 3223 / 8,
            303, 16117 / 40, 8123 / 40, 40603 / 400, 3793 / 25,
            32329 / 400] 2 6 3 =
   Inr [[[1000, 1200, 800], [900, 1000, 700], [700, 800, 600],
        [500, 600, 400], [300, 400, 200], [100, 150, 80]],
       [[965, 23157 / 20, 15443 / 20], [35867 / 40, 9989 / 10, 27929 / 40],
        [1403 / 2, 32037 / 40, 23983 / 40], [1005 / 2, 4817 / 8, 3223 / 8],
        [303, 16117 / 40, 8123 / 40],
        [40603 / 400, 3793 / 25, 32329 / 400]]]"
  by code_simp

lemma metrics_default:
  "calculate_metrics [0, 1 / 10]
      [[[1000, 1200, 800], [900, 1000, 700], [700, 800, 600],
        [500, 600, 400], [300, 400, 200], [100, 150, 80]],
       [[965, 23157 / 20, 15443 / 20], [35867 / 40, 9989 / 10, 27929 / 40],
        [1403 / 2, 32037 / 40, 23983 / 40], [1005 / 2, 4817 / 8, 3223 / 8],
        [303, 16117 / 40, 8123 / 40],
        [40603 / 400, 3793 / 25, 32329 / 400]]] =
   Inr \<lparr>total_force = [10430, 206827 / 20],
         combat_ratio = [Finite (50 / 149), Finite (1388073 / 4136540)],
         technical_ratio = [Finite (415 / 1043), Finite (822889 / 2068270)],
         support_ratio = [Finite (278 / 1043), Finite (1102689 / 4136540)],
         junior_to_senior_ratio = [110 / 39, 151816 / 55011],
         experienced_personnel = [2730, 55011 / 20]\<rparr>"
  by code_simp

lemma simulate_euler_default:
  "simulate (euler_solver ok) init_model (1 / 5) (1 / 10) =
   Inr ([0, 1 / 10],
      [[[1000, 1200, 800], [900, 1000, 700], [700, 800, 600],
        [500, 600, 400], [300, 400, 200], [100, 150, 80]],
       [[965, 23157 / 20, 15443 / 20], [35867 / 40, 9989 / 10, 27929 / 40],
        [1403 / 2, 32037 / 40, 23983 / 40], [1005 / 2, 4817 / 8, 3223 / 8],
        [303, 16117 / 40, 8123 / 40],
        [40603 / 400, 3793 / 25, 32329 / 400]]],
      \<lparr>total_force = [10430, 206827 / 20],
         combat_ratio = [Finite (50 / 149), Finite (1388073 / 4136540)],
         technical_ratio = [Finite (415 / 1043), Finite (822889 / 2068270)],
         support_ratio = [Finite (278 / 1043), Finite (1102689 / 4136540)],
         junior_to_senior_ratio = [110 / 39, 151816 / 55011],
         experienced_personnel = [2730, 55011 / 20]\<rparr>)"
proof -
  have ip: "getattr init_model ''initial_population'' = Inr (NdArray2 initial_population_default)"
    and nr: "attr_int init_model ''num_ranks'' = Inr 6"
    and ns: "attr_int init_model ''num_specialties'' = Inr 3"
    by (simp_all add: init_model_def getattr_def attr_int_def)
  have fl: "flatten (NdArray2 initial_population_default) =
    Inr [1000, 1200, 800, 900, 1000, 700, 700, 800, 600, 500, 600, 400, 300, 400, 200, 100, 150, 80]"
    by (simp add: flatten_def initial_population_default_def)
  show ?thesis
    unfolding simulate_def arange_default ip
    by (simp add: fl euler_default nr ns reshape_default metrics_default)
qed





text \<open>
  C7. The entry point does not read what the integrator reports about its run: with
  the status and the success flag of the result object replaced by any values, the
  outcome of \<^verbatim>\<open>simulate\<close>, the returned triple with its metrics or the exception,
  is the same.
\<close>

theorem simulate_ignores_status:
  "simulate (\<lambda>f t_span y0 t_eval.
               map_sum id (\<lambda>r. r\<lparr>status := st, success := ok\<rparr>) (solve_ivp f t_span y0 t_eval))
     self years dt =
   simulate solve_ivp self years dt"
  by (auto simp: simulate_def Let_def split: sum.splits)

text \<open>
  A run that reports failure (status -1) and has a state for both requested times is
  returned, with the metrics computed from it.
\<close>

theorem failed_run_is_returned:
  "map_sum id (\<lambda>r. (status r, success r))
     (euler_solver False (workforce_ode init_model) (0, 1 / 5)
        [1000, 1200, 800, 900, 1000, 700, 700, 800, 600, 500, 600, 400, 300, 400, 200, 100, 150, 80]
        [0, 1 / 10]) = Inr (- 1, False) \<and>
   map_sum id (\<lambda>r. total_force (snd (snd r)))
     (simulate (euler_solver False) init_model (1 / 5) (1 / 10)) = Inr [10430, 206827 / 20]"
  by (simp add: euler_default simulate_euler_default)

section \<open>Properties of the scenario runner\<close>

lemma map_of_setattr: "map_of (setattr self k v) = (map_of self)(k \<mapsto> v)"
  by (simp add: setattr_def update_conv')

lemma getattr_setattr_other: "k \<noteq> key \<Longrightarrow> getattr (setattr self k v) key = getattr self key"
  by (simp add: getattr_def map_of_setattr)

lemma getattr_setattr_same: "getattr (setattr self k v) k = Inr v"
  by (simp add: getattr_def map_of_setattr)

lemma hasattr_iff: "hasattr self key \<longleftrightarrow> (\<exists>v. getattr self key = Inr v)"
  by (cases "getattr self key") (simp_all add: hasattr_def)

lemma not_hasattr_iff:
  "\<not> hasattr self key \<longleftrightarrow> map_of self key = None \<and> key \<notin> set class_methods"
  by (auto simp: hasattr_def getattr_def split: option.splits)

lemma warning_inject: "warning a = warning b \<longleftrightarrow> a = b"
  by (simp add: warning_def)

lemma override_loop_untouched:
  "key \<notin> fst ` set kwargs \<Longrightarrow> override_loop kwargs (self, orig, printed) = (self1, orig1, printed1) \<Longrightarrow>
   map_of self1 key = map_of self key \<and> map_of orig1 key = map_of orig key \<and>
   (warning key \<in> set printed1 \<longleftrightarrow> warning key \<in> set printed)"
proof (induction kwargs arbitrary: self orig printed)
  case Nil
  then show ?case by simp
next
  case (Cons kv rest)
  obtain k v where kv: "kv = (k, v)" by (cases kv)
  have ne: "k \<noteq> key" and nr: "key \<notin> fst ` set rest"
    using Cons.prems(1) kv by auto
  show ?case
  proof (cases "hasattr self k")
    case True
    then obtain old where old: "getattr self k = Inr old" by (auto simp: hasattr_iff)
    have "override_loop rest (setattr self k v, AList.update k old orig, printed) =
            (self1, orig1, printed1)"
      using Cons.prems(2) kv True old by simp
    from Cons.IH [OF nr this] show ?thesis
      using ne by (simp add: map_of_setattr update_conv')
  next
    case False
    have "override_loop rest (self, orig, printed @ [warning k]) = (self1, orig1, printed1)"
      using Cons.prems(2) kv False by simp
    from Cons.IH [OF nr this] show ?thesis
      using ne by (simp add: warning_inject)
  qed
qed

lemma override_loop_unknown:
  "\<not> hasattr self key \<Longrightarrow> override_loop kwargs (self, orig, printed) = (self1, orig1, printed1) \<Longrightarrow>
   \<not> hasattr self1 key \<and> map_of orig1 key = map_of orig key \<and> set printed \<subseteq> set printed1 \<and>
   (key \<in> fst ` set kwargs \<longrightarrow> warning key \<in> set printed1)"
proof (induction kwargs arbitrary: self orig printed)
  case Nil
  then show ?case by simp
next
  case (Cons kv rest)
  obtain k v where kv: "kv = (k, v)" by (cases kv)
  show ?case
  proof (cases "hasattr self k")
    case True
    then have ne: "k \<noteq> key" using Cons.prems(1) by auto
    from True obtain old where old: "getattr self k = Inr old" by (auto simp: hasattr_iff)
    have step: "override_loop rest (setattr self k v, AList.update k old orig, printed) =
            (self1, orig1, printed1)"
      using Cons.prems(2) kv True old by simp
    have "\<not> hasattr (setattr self k v) key"
      using Cons.prems(1) ne by (simp add: hasattr_def getattr_setattr_other)
    from Cons.IH [OF this step] show ?thesis
      using ne kv by (simp add: update_conv')
  next
    case False
    have step: "override_loop rest (self, orig, printed @ [warning k]) = (self1, orig1, printed1)"
      using Cons.prems(2) kv False by simp
    from Cons.IH [OF Cons.prems(1) step] show ?thesis
      using kv by auto
  qed
qed

lemma override_loop_known:
  "distinct (map fst kwargs) \<Longrightarrow> (key, v) \<in> set kwargs \<Longrightarrow> getattr self key = Inr old \<Longrightarrow>
   override_loop kwargs (self, orig, printed) = (self1, orig1, printed1) \<Longrightarrow>
   map_of self1 key = Some v \<and> map_of orig1 key = Some old \<and>
   (warning key \<in> set printed1 \<longrightarrow> warning key \<in> set printed)"
proof (induction kwargs arbitrary: self orig printed)
  case Nil
  then show ?case by simp
next
  case (Cons kv rest)
  obtain k w where kv: "kv = (k, w)" by (cases kv)
  have d: "distinct (map fst rest)" and kr: "k \<notin> fst ` set rest"
    using Cons.prems(1) kv by auto
  show ?case
  proof (cases "k = key")
    case True
    then have w: "w = v" using Cons.prems(2) kv kr by (auto simp: image_iff)
    have h: "hasattr self key" using Cons.prems(3) by (simp add: hasattr_iff)
    have step: "override_loop rest (setattr self key v, AList.update key old orig, printed) =
            (self1, orig1, printed1)"
      using Cons.prems(3,4) kv True w h by simp
    from override_loop_untouched [OF _ step] kr True show ?thesis
      by (simp add: map_of_setattr update_conv')
  next
    case False
    then have mem: "(key, v) \<in> set rest" using Cons.prems(2) kv by auto
    show ?thesis
    proof (cases "hasattr self k")
      case True
      then obtain old' where old': "getattr self k = Inr old'" by (auto simp: hasattr_iff)
      have step: "override_loop rest (setattr self k w, AList.update k old' orig, printed) =
            (self1, orig1, printed1)"
        using Cons.prems(4) kv True old' by simp
      have g: "getattr (setattr self k w) key = Inr old"
        using Cons.prems(3) False by (simp add: getattr_setattr_other)
      from Cons.IH [OF d mem g step] show ?thesis by simp
    next
      case F: False
      have step: "override_loop rest (self, orig, printed @ [warning k]) = (self1, orig1, printed1)"
        using Cons.prems(4) kv F by simp
      from Cons.IH [OF d mem Cons.prems(3) step] show ?thesis
        using False by (simp add: warning_inject)
    qed
  qed
qed

lemma restore_loop_other:
  "key \<notin> fst ` set orig \<Longrightarrow> map_of (restore_loop orig self) key = map_of self key"
  by (induction orig self rule: restore_loop.induct) (auto simp: map_of_setattr)

lemma restore_loop_saved:
  "distinct (map fst orig) \<Longrightarrow> map_of orig key = Some old \<Longrightarrow>
   map_of (restore_loop orig self) key = Some old"
proof (induction orig self rule: restore_loop.induct)
  case (1 self)
  then show ?case by simp
next
  case (2 k v rest self)
  show ?case
  proof (cases "k = key")
    case True
    then have "v = old" and "key \<notin> fst ` set rest" using "2.prems" by auto
    then show ?thesis using True by (simp add: restore_loop_other map_of_setattr)
  next
    case False
    then show ?thesis using 2 by simp
  qed
qed


lemma override_loop_orig_distinct:
  "override_loop kwargs (self, orig, printed) = (self1, orig1, printed1) \<Longrightarrow>
   distinct (map fst orig) \<Longrightarrow> distinct (map fst orig1)"
proof (induction kwargs arbitrary: self orig printed)
  case Nil
  then show ?case by simp
next
  case (Cons kv rest)
  obtain k v where kv: "kv = (k, v)" by (cases kv)
  show ?case
  proof (cases "hasattr self k")
    case True
    then obtain old where old: "getattr self k = Inr old" by (auto simp: hasattr_iff)
    have "override_loop rest (setattr self k v, AList.update k old orig, printed) =
            (self1, orig1, printed1)"
      using Cons.prems(1) kv True old by simp
    from Cons.IH [OF this] Cons.prems(2) show ?thesis by (simp add: distinct_update)
  next
    case False
    have "override_loop rest (self, orig, printed @ [warning k]) = (self1, orig1, printed1)"
      using Cons.prems(1) kv False by simp
    from Cons.IH [OF this Cons.prems(2)] show ?thesis .
  qed
qed

lemma run_scenario_return_restores:
  assumes "valid_kwargs kwargs" "(key, v) \<in> set kwargs" "hasattr self key"
    and "run_scenario solve_ivp self scenario_name years kwargs = (self2, printed, Inr results)"
  shows "getattr self2 key = getattr self key"
proof -
  obtain self1 orig printed1 where l: "override_loop kwargs (self, [], []) = (self1, orig, printed1)"
    by (cases "override_loop kwargs (self, [], [])")
  obtain old where old: "getattr self key = Inr old" using assms(3) by (auto simp: hasattr_iff)
  have d: "distinct (map fst kwargs)" using assms(1) by (simp add: valid_kwargs_def)
  have s: "map_of orig key = Some old"
    using override_loop_known [OF d assms(2) old l] by simp
  have "distinct (map fst orig)" using override_loop_orig_distinct [OF l] by simp
  then have r: "map_of (restore_loop orig self1) key = Some old"
    using s by (rule restore_loop_saved)
  have "self2 = restore_loop orig self1"
    using assms(4) l by (auto simp: run_scenario_def split: sum.splits)
  then show ?thesis using r old by (simp add: getattr_def)
qed

text \<open>
  C8. For a key of the keyword dictionary that \<^verbatim>\<open>hasattr\<close> does not find on the
  object (neither an instance attribute nor a function of the class) the warning is
  printed and the key is ignored: the object has no such attribute during the run or
  after the call, and nothing is saved for it. For a key \<^verbatim>\<open>hasattr\<close> finds, a
  configuration attribute or a method name, no warning is printed, the value the
  attribute had is saved and the attribute holds the override during the run. In both
  cases the simulation is called on the object as the loop leaves it, and the outcome
  of the call is the outcome of that simulation.
\<close>

theorem run_scenario_override_keys:
  assumes "valid_kwargs kwargs" "(key, v) \<in> set kwargs"
    and "override_loop kwargs (self, [], []) = (self1, original_params, printed)"
  shows "(\<not> hasattr self key \<longrightarrow>
            warning key \<in> set printed \<and> \<not> hasattr self1 key \<and>
            map_of original_params key = None \<and>
            \<not> hasattr (fst (run_scenario solve_ivp self scenario_name years kwargs)) key) \<and>
         (hasattr self key \<longrightarrow>
            warning key \<notin> set printed \<and> getattr self1 key = Inr v \<and>
            map_option Inr (map_of original_params key) = Some (getattr self key)) \<and>
         run_scenario solve_ivp self scenario_name years kwargs =
           (case call_simulate solve_ivp self1 years of
              Inl e \<Rightarrow> (self1, printed, Inl e)
            | Inr results \<Rightarrow> (restore_loop original_params self1, printed, Inr results))"
proof -
  have d: "distinct (map fst kwargs)" using assms(1) by (simp add: valid_kwargs_def)
  have k: "key \<in> fst ` set kwargs" using assms(2) by force
  have run: "run_scenario solve_ivp self scenario_name years kwargs =
           (case call_simulate solve_ivp self1 years of
              Inl e \<Rightarrow> (self1, printed, Inl e)
            | Inr results \<Rightarrow> (restore_loop original_params self1, printed, Inr results))"
    using assms(3) by (simp add: run_scenario_def)
  have unknown: "warning key \<in> set printed \<and> \<not> hasattr self1 key \<and>
            map_of original_params key = None \<and>
            \<not> hasattr (fst (run_scenario solve_ivp self scenario_name years kwargs)) key"
    if n: "\<not> hasattr self key"
  proof -
    note u = override_loop_unknown [OF n assms(3)]
    have o: "map_of original_params key = None" using u by simp
    then have "key \<notin> fst ` set original_params" by (simp add: map_of_eq_None_iff)
    then have "map_of (restore_loop original_params self1) key = map_of self1 key"
      by (rule restore_loop_other)
    then have "\<not> hasattr (restore_loop original_params self1) key"
      using u by (simp add: not_hasattr_iff)
    then have "\<not> hasattr (fst (run_scenario solve_ivp self scenario_name years kwargs)) key"
      using u run by (simp split: sum.splits)
    then show ?thesis using u k o by simp
  qed
  have known: "warning key \<notin> set printed \<and> getattr self1 key = Inr v \<and>
            map_option Inr (map_of original_params key) = Some (getattr self key)"
    if h: "hasattr self key"
  proof -
    from h obtain old where old: "getattr self key = Inr old" by (auto simp: hasattr_iff)
    from override_loop_known [OF d assms(2) old assms(3)] old show ?thesis
      by (simp add: getattr_def)
  qed
  from unknown known run show ?thesis by blast
qed


text \<open>
  An unknown key and a configuration attribute on the default object.
\<close>

theorem run_scenario_override_keys_witness:
  "valid_kwargs [(''deployment_rate'', PyInt 7), (''recruitment_rates'', NdArray1 [150, 180, 120])] \<and>
   \<not> hasattr init_model ''deployment_rate'' \<and> hasattr init_model ''recruitment_rates'' \<and>
   override_loop [(''deployment_rate'', PyInt 7), (''recruitment_rates'', NdArray1 [150, 180, 120])]
       (init_model, [], []) =
     (setattr init_model ''recruitment_rates'' (NdArray1 [150, 180, 120]),
      [(''recruitment_rates'', NdArray1 [100, 120, 80])],
      [warning ''deployment_rate'']) \<and>
   \<not> hasattr (setattr init_model ''recruitment_rates'' (NdArray1 [150, 180, 120])) ''deployment_rate'' \<and>
   \<not> hasattr (fst (run_scenario (euler_solver True) init_model ''surge'' (1 / 5)
        [(''deployment_rate'', PyInt 7), (''recruitment_rates'', NdArray1 [150, 180, 120])]))
      ''deployment_rate'' \<and>
   getattr (setattr init_model ''recruitment_rates'' (NdArray1 [150, 180, 120])) ''recruitment_rates'' =
     Inr (NdArray1 [150, 180, 120])"
proof -
  let ?kw = "[(''deployment_rate'', PyInt 7), (''recruitment_rates'', NdArray1 [150, 180, 120])]"
  let ?self1 = "setattr init_model ''recruitment_rates'' (NdArray1 [150, 180, 120])"
  have v: "valid_kwargs ?kw" by (simp add: valid_kwargs_def)
  have u: "\<not> hasattr init_model ''deployment_rate''"
    by (simp add: hasattr_def getattr_def init_model_def class_methods_def)
  have h: "hasattr init_model ''recruitment_rates''"
    by (simp add: hasattr_def getattr_def init_model_def)
  have l: "override_loop ?kw (init_model, [], []) =
     (?self1, [(''recruitment_rates'', NdArray1 [100, 120, 80])], [warning ''deployment_rate''])"
    using u h by (simp add: getattr_def init_model_def)
  have m1: "(''deployment_rate'', PyInt 7) \<in> set ?kw" by simp
  have m2: "(''recruitment_rates'', NdArray1 [150, 180, 120]) \<in> set ?kw" by simp
  show ?thesis
    using run_scenario_override_keys [OF v m1 l, of "euler_solver True" "''surge''" "1 / 5"]
      run_scenario_override_keys [OF v m2 l, of "euler_solver True" "''surge''" "1 / 5"] v u h l
    by simp
qed

text \<open>
  The key \<^verbatim>\<open>simulate\<close> is not a configuration attribute of the default object, and
  yet it is not warned about and not ignored: the method is shadowed by the value,
  which the call then finds not callable.
\<close>

theorem method_name_is_overridden:
  "map_of init_model ''simulate'' = None \<and>
   run_scenario (euler_solver True) init_model ''surge'' 10 [(''simulate'', PyInt 7)] =
     (init_model @ [(''simulate'', PyInt 7)], [], Inl TypeError)"
  by code_simp

text \<open>
  C2. When the simulation raises, \<^verbatim>\<open>run_scenario\<close> does not reach its restore loop.
  With the override \<^verbatim>\<open>num_ranks=7\<close> on the default object the derivative function
  cannot reshape the 18 entries of the state, so every integrator that raises when the
  evaluation of the derivative at the initial state raises makes the call raise, and
  the call leaves \<^verbatim>\<open>num_ranks\<close> at 7, not at the 6 it had before.
\<close>

theorem run_scenario_raise_skips_restore:
  assumes "\<forall>f t_span y0 t_eval. isl (f (fst t_span) y0) \<longrightarrow> isl (solve_ivp f t_span y0 t_eval)"
  shows "\<exists>e. run_scenario solve_ivp init_model scenario_name years [(''num_ranks'', PyInt 7)] =
           (setattr init_model ''num_ranks'' (PyInt 7), [], Inl e) \<and>
         getattr (setattr init_model ''num_ranks'' (PyInt 7)) ''num_ranks'' = Inr (PyInt 7) \<and>
         getattr init_model ''num_ranks'' = Inr (PyInt 6)"
proof -
  let ?self1 = "setattr init_model ''num_ranks'' (PyInt 7)"
  let ?y0 = "concat initial_population_default"
  have g: "getattr init_model ''num_ranks'' = Inr (PyInt 6)"
    by (simp add: getattr_def init_model_def)
  have l: "override_loop [(''num_ranks'', PyInt 7)] (init_model, [], []) = (?self1, [(''num_ranks'', PyInt 6)], [])"
    using g by (simp add: hasattr_def)
  have ode: "workforce_ode ?self1 0 ?y0 = Inl ValueError"
    by code_simp
  then have "isl (solve_ivp (workforce_ode ?self1) (0, years) ?y0 tp)" for tp
    using assms by (metis fst_conv isl_def)
  then obtain e where s: "solve_ivp (workforce_ode ?self1) (0, years) ?y0
      (map (\<lambda>i. 0 + real i * (1 / 10)) [0..<nat \<lceil>(years - 0) / (1 / 10)\<rceil>]) = Inl e"
    by (auto simp: isl_def)
  have ar: "np_arange 0 years (1 / 10) =
      Inr (map (\<lambda>i. 0 + real i * (1 / 10)) [0..<nat \<lceil>(years - 0) / (1 / 10)\<rceil>])"
    by (simp add: np_arange_def)
  have ip: "getattr ?self1 ''initial_population'' = Inr (NdArray2 initial_population_default)"
    by (simp add: getattr_setattr_other) (simp add: getattr_def init_model_def)
  have fl: "flatten (NdArray2 initial_population_default) = Inr ?y0"
    by (simp add: flatten_def)
  have e: "simulate solve_ivp ?self1 years (1 / 10) = Inl e"
    unfolding simulate_def ar by (simp only: sum.case Let_def ip fl s)
  have "call_simulate solve_ivp ?self1 years = Inl e"
    using e by (simp add: call_simulate_def getattr_def setattr_def init_model_def class_methods_def)
  then have "run_scenario solve_ivp init_model scenario_name years [(''num_ranks'', PyInt 7)] =
           (?self1, [], Inl e)"
    using l by (simp add: run_scenario_def)
  then show ?thesis using g by (simp add: getattr_setattr_same)
qed

text \<open>The stand-in integrator, ten years: the exception is the ValueError of the reshape.\<close>

theorem run_scenario_raise_skips_restore_witness:
  "run_scenario (euler_solver True) init_model ''surge'' 10 [(''num_ranks'', PyInt 7)] =
     (setattr init_model ''num_ranks'' (PyInt 7), [], Inl ValueError) \<and>
   getattr (setattr init_model ''num_ranks'' (PyInt 7)) ''num_ranks'' = Inr (PyInt 7) \<and>
   getattr init_model ''num_ranks'' = Inr (PyInt 6)"
proof -
  have "\<forall>f t_span y0 t_eval. isl (f (fst t_span) y0) \<longrightarrow> isl (euler_solver True f t_span y0 t_eval)"
    by (auto simp: euler_solver_def isl_def)
  from run_scenario_raise_skips_restore [OF this, of "''surge''" 10]
  obtain e where e: "run_scenario (euler_solver True) init_model ''surge'' 10 [(''num_ranks'', PyInt 7)] =
           (setattr init_model ''num_ranks'' (PyInt 7), [], Inl e)"
    and g: "getattr (setattr init_model ''num_ranks'' (PyInt 7)) ''num_ranks'' = Inr (PyInt 7)"
      "getattr init_model ''num_ranks'' = Inr (PyInt 6)"
    by blast
  have "snd (snd (run_scenario (euler_solver True) init_model ''surge'' 10 [(''num_ranks'', PyInt 7)])) =
     Inl ValueError"
    by code_simp
  then have "e = ValueError" using e by simp
  then show ?thesis using e g by simp
qed

end
